theory Spec2Isabelle
  imports Complex_Main "HOL-Library.AList" "HOL-Library.Product_Lexorder"
begin

section \<open>The stats plugin tool (examples/tools/python/tool.py)\<close>

text \<open>
  The tool reads one JSON document per line, answers \<open>describe\<close> with its
  descriptor and \<open>call\<close> with a statistics report. This theory embeds
  \<open>compute_stats\<close>, \<open>handle_call\<close> and \<open>main\<close> together with the part of
  the Python runtime they rely on: exceptions, the values \<open>json.loads\<close> produces,
  the conversions \<open>float()\<close> and \<open>int()\<close>, list indexing, float arithmetic and
  the \<open>.Nf\<close> format.

  Exceptions are values: every function that can raise returns \<open>exn + 'a\<close>, with
  \<open>Inl\<close> the exception that escapes it.
\<close>

subsection \<open>Exceptions\<close>

datatype exn =
    TypeError string
  | ValueError string
  | OverflowError string
  | IndexError string
  | AttributeError string

text \<open>The test of \<open>except (TypeError, ValueError)\<close>.\<close>

fun is_type_or_value_error :: "exn \<Rightarrow> bool" where
  "is_type_or_value_error (TypeError m) = True"
| "is_type_or_value_error (ValueError m) = True"
| "is_type_or_value_error e = False"

text \<open>\<open>str(e)\<close>, as the f-string \<open>{e}\<close> renders the exceptions raised here.\<close>

fun exn_str :: "exn \<Rightarrow> string" where
  "exn_str (TypeError m) = m"
| "exn_str (ValueError m) = m"
| "exn_str (OverflowError m) = m"
| "exn_str (IndexError m) = m"
| "exn_str (AttributeError m) = m"

subsection \<open>Floats\<close>

text \<open>
  A Python float is a finite value or one of \<open>inf\<close>, \<open>-inf\<close>, \<open>nan\<close>. Finite
  values are modelled by the real number they stand for: the rounding of binary64
  arithmetic to 53 bits and the sign of zero are not modelled. What is modelled is the
  range: an operation whose exact result reaches \<open>2^1024 - 2^970\<close> in magnitude (the
  least magnitude that binary64 rounds to infinity) yields an infinity, and the
  operations that raise in Python raise here.
\<close>

datatype pyfloat = Fin real | PInf | NInf | NaN

definition overflow_bound :: real where
  "overflow_bound = 2 ^ 1024 - 2 ^ 970"

definition fl_round :: "real \<Rightarrow> pyfloat" where
  "fl_round r =
     (if overflow_bound \<le> r then PInf
      else if r \<le> - overflow_bound then NInf
      else Fin r)"

fun is_finite :: "pyfloat \<Rightarrow> bool" where
  "is_finite (Fin r) = True"
| "is_finite x = False"

fun fl_neg :: "pyfloat \<Rightarrow> pyfloat" where
  "fl_neg (Fin a) = Fin (- a)"
| "fl_neg PInf = NInf"
| "fl_neg NInf = PInf"
| "fl_neg NaN = NaN"

fun fl_add :: "pyfloat \<Rightarrow> pyfloat \<Rightarrow> pyfloat" where
  "fl_add (Fin a) (Fin b) = fl_round (a + b)"
| "fl_add NaN y = NaN"
| "fl_add x NaN = NaN"
| "fl_add PInf NInf = NaN"
| "fl_add NInf PInf = NaN"
| "fl_add (Fin a) y = y"
| "fl_add x y = x"

definition fl_sub :: "pyfloat \<Rightarrow> pyfloat \<Rightarrow> pyfloat" where
  "fl_sub x y = fl_add x (fl_neg y)"

fun fl_mul :: "pyfloat \<Rightarrow> pyfloat \<Rightarrow> pyfloat" where
  "fl_mul (Fin a) (Fin b) = fl_round (a * b)"
| "fl_mul NaN y = NaN"
| "fl_mul x NaN = NaN"
| "fl_mul (Fin a) y = (if a = 0 then NaN else if 0 < a then y else fl_neg y)"
| "fl_mul x (Fin b) = (if b = 0 then NaN else if 0 < b then x else fl_neg x)"
| "fl_mul x y = (if x = y then PInf else NInf)"

text \<open>
  True division by a positive finite divisor. The three divisions of
  \<open>compute_stats\<close> divide by \<open>n\<close> (after the \<open>n == 0\<close> return), by \<open>2.0\<close> and by
  \<open>100\<close>, so \<open>ZeroDivisionError\<close> has no call site.
\<close>

fun fl_div :: "pyfloat \<Rightarrow> real \<Rightarrow> pyfloat" where
  "fl_div (Fin a) c = fl_round (a / c)"
| "fl_div x c = x"

text \<open>
  \<open>x ** 2\<close>: Python raises \<open>OverflowError\<close> when finite operands give a result out
  of range, and returns \<open>inf\<close> or \<open>nan\<close> for operands that are already so.
\<close>

fun fl_pow2 :: "pyfloat \<Rightarrow> exn + pyfloat" where
  "fl_pow2 (Fin a) =
     (if overflow_bound \<le> a * a then Inl (OverflowError ''(34, 'Numerical result out of range')'')
      else Inr (Fin (a * a)))"
| "fl_pow2 NaN = Inr NaN"
| "fl_pow2 x = Inr PInf"

text \<open>\<open>math.sqrt\<close>.\<close>

fun math_sqrt :: "pyfloat \<Rightarrow> exn + pyfloat" where
  "math_sqrt (Fin a) =
     (if a < 0 then Inl (ValueError ''math domain error'') else Inr (Fin (sqrt a)))"
| "math_sqrt PInf = Inr PInf"
| "math_sqrt NInf = Inl (ValueError ''math domain error'')"
| "math_sqrt NaN = Inr NaN"

text \<open>\<open>x <= y\<close> on floats: every comparison with \<open>nan\<close> is false.\<close>

fun fl_le :: "pyfloat \<Rightarrow> pyfloat \<Rightarrow> bool" where
  "fl_le (Fin a) (Fin b) = (a \<le> b)"
| "fl_le NaN y = False"
| "fl_le x NaN = False"
| "fl_le NInf y = True"
| "fl_le x PInf = True"
| "fl_le x y = False"

text \<open>\<open>int(x)\<close> on a float truncates towards zero.\<close>

fun float_to_int :: "pyfloat \<Rightarrow> exn + int" where
  "float_to_int (Fin a) = Inr (if 0 \<le> a then \<lfloor>a\<rfloor> else \<lceil>a\<rceil>)"
| "float_to_int NaN = Inl (ValueError ''cannot convert float NaN to integer'')"
| "float_to_int x = Inl (OverflowError ''cannot convert float infinity to integer'')"

text \<open>\<open>float(n)\<close> on an int raises when \<open>n\<close> is out of the range of a float.\<close>

definition int_to_float :: "int \<Rightarrow> exn + pyfloat" where
  "int_to_float n =
     (if overflow_bound \<le> \<bar>real_of_int n\<bar> then Inl (OverflowError ''int too large to convert to float'')
      else Inr (Fin (real_of_int n)))"

text \<open>
  \<open>sorted\<close> on a list of floats. Without \<open>nan\<close> the floats are linearly ordered
  and the result is the ascending list. With a \<open>nan\<close> in the list Python's result
  depends on the order of the comparisons its merge sort happens to make; the model
  places each \<open>nan\<close> last, and no statement below relies on where it is placed.
\<close>

fun fl_key :: "pyfloat \<Rightarrow> nat \<times> real" where
  "fl_key NInf = (0, 0)"
| "fl_key (Fin a) = (1, a)"
| "fl_key PInf = (2, 0)"
| "fl_key NaN = (3, 0)"

definition sorted_py :: "pyfloat list \<Rightarrow> pyfloat list" where
  "sorted_py xs = sort_key fl_key xs"

text \<open>\<open>sum\<close> starts from the int \<open>0\<close> and adds from the left.\<close>

definition sum_py :: "pyfloat list \<Rightarrow> pyfloat" where
  "sum_py xs = foldl fl_add (Fin 0) xs"

subsection \<open>Sequences and strings\<close>

text \<open>\<open>xs[i]\<close>: a negative index counts from the end, an index out of range raises.\<close>

definition py_index :: "'a list \<Rightarrow> int \<Rightarrow> exn + 'a" where
  "py_index xs i =
     (if 0 \<le> i \<and> i < int (length xs) then Inr (xs ! nat i)
      else if i < 0 \<and> - int (length xs) \<le> i then Inr (xs ! nat (int (length xs) + i))
      else Inl (IndexError ''list index out of range''))"

text \<open>A comprehension \<open>[f(x) for x in xs]\<close> stops at the first element on which \<open>f\<close> raises.\<close>

fun map_exn :: "('a \<Rightarrow> exn + 'b) \<Rightarrow> 'a list \<Rightarrow> exn + 'b list" where
  "map_exn f [] = Inr []"
| "map_exn f (x # xs) =
     (case f x of
        Inl e \<Rightarrow> Inl e
      | Inr y \<Rightarrow> (case map_exn f xs of Inl e \<Rightarrow> Inl e | Inr ys \<Rightarrow> Inr (y # ys)))"

definition digit_char :: "nat \<Rightarrow> char" where
  "digit_char d = ''0123456789'' ! d"

fun str_nat :: "nat \<Rightarrow> string" where
  "str_nat n = (if n < 10 then [digit_char n] else str_nat (n div 10) @ [digit_char (n mod 10)])"

text \<open>\<open>str(i)\<close> on an int.\<close>

definition str_int :: "int \<Rightarrow> string" where
  "str_int i = (if i < 0 then ''-'' @ str_nat (nat (- i)) else str_nat (nat i))"

text \<open>The format \<open><6\<close>: left-aligned in a field of six, padded with spaces.\<close>

definition ljust6 :: "string \<Rightarrow> string" where
  "ljust6 s = s @ replicate (6 - length s) CHR '' ''"

definition zero_pad :: "nat \<Rightarrow> string \<Rightarrow> string" where
  "zero_pad k s = replicate (k - length s) CHR ''0'' @ s"

text \<open>\<open>"\n".join(lines)\<close>.\<close>

fun join_lines :: "string list \<Rightarrow> string" where
  "join_lines [] = []"
| "join_lines [l] = l"
| "join_lines (l # ls) = l @ [CHR 0x0A] @ join_lines ls"

subsection \<open>The format \<open>.Nf\<close>\<close>

text \<open>
  Fixed-point formatting rounds the value to \<open>N\<close> decimals, ties to even, and prints
  the sign, the integer digits and, when \<open>N > 0\<close>, a point and exactly \<open>N\<close> digits.
  The non-finite floats print as \<open>nan\<close>, \<open>inf\<close> and \<open>-inf\<close>.
\<close>

definition round_half_even :: "real \<Rightarrow> int" where
  "round_half_even x =
     (let f = \<lfloor>x\<rfloor>; d = x - of_int f
      in if d < 1 / 2 then f else if 1 / 2 < d then f + 1 else if even f then f else f + 1)"

fun format_f :: "nat \<Rightarrow> pyfloat \<Rightarrow> string" where
  "format_f k NaN = ''nan''"
| "format_f k PInf = ''inf''"
| "format_f k NInf = ''-inf''"
| "format_f k (Fin r) =
     (let scaled = nat (round_half_even (\<bar>r\<bar> * 10 ^ k))
      in (if r < 0 then ''-'' else '''')
         @ str_nat (scaled div 10 ^ k)
         @ (if k = 0 then '''' else ''.'' @ zero_pad k (str_nat (scaled mod 10 ^ k))))"

subsection \<open>Values of \<open>json.loads\<close>\<close>

text \<open>
  \<open>json.loads\<close> yields \<open>None\<close>, a bool, an int of any size, a float (also
  \<open>inf\<close> and \<open>nan\<close>: the literals \<open>Infinity\<close> and \<open>NaN\<close> are accepted, and
  \<open>1e999\<close> reads as \<open>inf\<close>), a str, a list or a dict. A dict is an association
  list that holds each key once; \<open>d.get(k)\<close> is \<open>map_of d k\<close>. A character is a
  code point below 256.
\<close>

datatype json =
    JNull
  | JBool bool
  | JInt int
  | JFloat pyfloat
  | JStr string
  | JList "json list"
  | JObj "(string \<times> json) list"

fun type_name :: "json \<Rightarrow> string" where
  "type_name JNull = ''NoneType''"
| "type_name (JBool b) = ''bool''"
| "type_name (JInt i) = ''int''"
| "type_name (JFloat x) = ''float''"
| "type_name (JStr s) = ''str''"
| "type_name (JList xs) = ''list''"
| "type_name (JObj d) = ''dict''"

definition quoted :: "string \<Rightarrow> string" where
  "quoted s = [CHR 0x27] @ s @ [CHR 0x27]"

subsection \<open>\<open>repr\<close> of a str\<close>

definition hex_char :: "nat \<Rightarrow> char" where
  "hex_char d = ''0123456789abcdef'' ! d"

definition is_printable :: "char \<Rightarrow> bool" where
  "is_printable c =
     (let n = (of_char c :: nat)
      in (32 \<le> n \<and> n < 127) \<or> (161 \<le> n \<and> n \<noteq> 173))"

definition repr_char :: "char \<Rightarrow> char \<Rightarrow> string" where
  "repr_char q c =
     (if c = q \<or> c = CHR 0x5C then [CHR 0x5C, c]
      else if c = CHR 0x09 then [CHR 0x5C, CHR ''t'']
      else if c = CHR 0x0A then [CHR 0x5C, CHR ''n'']
      else if c = CHR 0x0D then [CHR 0x5C, CHR ''r'']
      else if is_printable c then [c]
      else [CHR 0x5C, CHR ''x'', hex_char ((of_char c :: nat) div 16), hex_char ((of_char c :: nat) mod 16)])"

definition repr_str :: "string \<Rightarrow> string" where
  "repr_str s =
     (let q = (if CHR 0x27 \<in> set s \<and> CHR 0x22 \<notin> set s then CHR 0x22 else CHR 0x27)
      in [q] @ concat (map (repr_char q) s) @ [q])"

subsection \<open>\<open>float()\<close> and \<open>int()\<close>\<close>

text \<open>
  Both strip surrounding whitespace from a str and accept single underscores between
  digits. \<open>float\<close> reads an optional sign followed by \<open>inf\<close>, \<open>infinity\<close>,
  \<open>nan\<close> (in any case) or by a decimal number with an optional exponent; \<open>int\<close>
  reads an optional sign and decimal digits. Anything else raises \<open>ValueError\<close>.
  The interpreter's limit on the number of digits of an int literal is not modelled.
\<close>

definition is_space :: "char \<Rightarrow> bool" where
  "is_space c =
     (let n = (of_char c :: nat)
      in (9 \<le> n \<and> n \<le> 13) \<or> (28 \<le> n \<and> n \<le> 32) \<or> n = 133 \<or> n = 160)"

definition py_strip :: "string \<Rightarrow> string" where
  "py_strip s = rev (dropWhile is_space (rev (dropWhile is_space s)))"

definition is_digit :: "char \<Rightarrow> bool" where
  "is_digit c = (let n = (of_char c :: nat) in 48 \<le> n \<and> n \<le> 57)"

definition digits_val :: "string \<Rightarrow> nat" where
  "digits_val ds = foldl (\<lambda>a c. 10 * a + ((of_char c :: nat) - 48)) 0 ds"

definition lower_char :: "char \<Rightarrow> char" where
  "lower_char c =
     (let n = (of_char c :: nat) in if 65 \<le> n \<and> n \<le> 90 then char_of (n + 32) else c)"

text \<open>
  Underscores are dropped before the number is read: one is allowed only after a digit
  and only before a digit. The first argument is the previous character.
\<close>

fun drop_underscores :: "char \<Rightarrow> string \<Rightarrow> string option" where
  "drop_underscores prev [] = (if prev = CHR ''_'' then None else Some [])"
| "drop_underscores prev (c # cs) =
     (if c = CHR ''_'' then (if is_digit prev then drop_underscores c cs else None)
      else if prev = CHR ''_'' \<and> \<not> is_digit c then None
      else map_option (Cons c) (drop_underscores c cs))"

text \<open>The sign of a literal and the rest of it.\<close>

fun split_sign :: "string \<Rightarrow> bool \<times> string" where
  "split_sign [] = (False, [])"
| "split_sign (c # cs) =
     (if c = CHR ''-'' then (True, cs) else if c = CHR ''+'' then (False, cs) else (False, c # cs))"

text \<open>The exponent part: empty, or \<open>e\<close>, an optional sign and at least one digit.\<close>

definition parse_exponent :: "string \<Rightarrow> int option" where
  "parse_exponent s =
     (case s of
        [] \<Rightarrow> Some 0
      | c # cs \<Rightarrow>
          if c = CHR ''e'' \<or> c = CHR ''E'' then
            (let (neg, ds) = split_sign cs
             in if ds \<noteq> [] \<and> list_all is_digit ds
                then Some (if neg then - int (digits_val ds) else int (digits_val ds))
                else None)
          else None)"

text \<open>An unsigned decimal number: its exact value.\<close>

definition parse_decimal :: "string \<Rightarrow> real option" where
  "parse_decimal s =
     (let ds1 = takeWhile is_digit s; r1 = dropWhile is_digit s;
          r2 = (case r1 of [] \<Rightarrow> [] | c # cs \<Rightarrow> if c = CHR ''.'' then cs else r1);
          ds2 = (if r2 = r1 then [] else takeWhile is_digit r2);
          r3 = (if r2 = r1 then r1 else dropWhile is_digit r2)
      in if ds1 @ ds2 = [] then None
         else (case parse_exponent r3 of
                 None \<Rightarrow> None
               | Some e \<Rightarrow>
                   (let m = real (digits_val (ds1 @ ds2)); e' = e - int (length ds2)
                    in Some (if 0 \<le> e' then m * 10 ^ nat e' else m / 10 ^ nat (- e')))))"

definition parse_float :: "string \<Rightarrow> pyfloat option" where
  "parse_float s =
     (case drop_underscores (CHR 0x00) (py_strip s) of
        None \<Rightarrow> None
      | Some t \<Rightarrow>
          (let (neg, body) = split_sign t; low = map lower_char body
           in if low = ''inf'' \<or> low = ''infinity'' then Some (if neg then NInf else PInf)
              else if low = ''nan'' then Some NaN
              else (case parse_decimal body of
                      None \<Rightarrow> None
                    | Some v \<Rightarrow> Some (fl_round (if neg then - v else v)))))"

definition parse_int :: "string \<Rightarrow> int option" where
  "parse_int s =
     (case drop_underscores (CHR 0x00) (py_strip s) of
        None \<Rightarrow> None
      | Some t \<Rightarrow>
          (let (neg, ds) = split_sign t
           in if ds \<noteq> [] \<and> list_all is_digit ds
              then Some (if neg then - int (digits_val ds) else int (digits_val ds))
              else None))"

text \<open>\<open>float(x)\<close>; a bool is an int.\<close>

fun py_float :: "json \<Rightarrow> exn + pyfloat" where
  "py_float (JInt i) = int_to_float i"
| "py_float (JBool b) = Inr (Fin (if b then 1 else 0))"
| "py_float (JFloat x) = Inr x"
| "py_float (JStr s) =
     (case parse_float s of
        None \<Rightarrow> Inl (ValueError (''could not convert string to float: '' @ repr_str s))
      | Some x \<Rightarrow> Inr x)"
| "py_float v =
     Inl (TypeError (''float() argument must be a string or a real number, not '' @ quoted (type_name v)))"

text \<open>\<open>int(x)\<close>.\<close>

fun py_int :: "json \<Rightarrow> exn + int" where
  "py_int (JInt i) = Inr i"
| "py_int (JBool b) = Inr (if b then 1 else 0)"
| "py_int (JFloat x) = float_to_int x"
| "py_int (JStr s) =
     (case parse_int s of
        None \<Rightarrow> Inl (ValueError (''invalid literal for int() with base 10: '' @ repr_str s))
      | Some i \<Rightarrow> Inr i)"
| "py_int v =
     Inl (TypeError (''int() argument must be a string, a bytes-like object or a real number, not ''
                     @ quoted (type_name v)))"

text \<open>
  \<open>for p in v\<close>: a list yields its elements, a str its characters, a dict its keys;
  nothing else that \<open>json.loads\<close> produces can be iterated.
\<close>

fun py_iter :: "json \<Rightarrow> exn + json list" where
  "py_iter (JList xs) = Inr xs"
| "py_iter (JStr s) = Inr (map (\<lambda>c. JStr [c]) s)"
| "py_iter (JObj d) = Inr (map (\<lambda>kv. JStr (fst kv)) d)"
| "py_iter v = Inl (TypeError (quoted (type_name v) @ '' object is not iterable''))"

subsection \<open>\<open>compute_stats\<close>\<close>

text \<open>
  The function is embedded statement by statement; the median, the variance and the
  body of the percentile loop are named so that the statements below can speak of them.
  \<open>n\<close> is \<open>len(numbers)\<close>, the precision \<open>k\<close> is the one of \<open>fmt\<close>.
\<close>

definition median_of :: "pyfloat list \<Rightarrow> int \<Rightarrow> exn + pyfloat" where
  "median_of sorted_nums n =
     (let mid = n div 2
      in if n mod 2 = 0 then
           (case py_index sorted_nums (mid - 1) of
              Inl e \<Rightarrow> Inl e
            | Inr a \<Rightarrow>
                (case py_index sorted_nums mid of
                   Inl e \<Rightarrow> Inl e
                 | Inr b \<Rightarrow> Inr (fl_div (fl_add a b) 2)))
         else py_index sorted_nums mid)"

definition variance_of :: "pyfloat list \<Rightarrow> pyfloat \<Rightarrow> int \<Rightarrow> exn + pyfloat" where
  "variance_of numbers mean n =
     (case map_exn (\<lambda>x. fl_pow2 (fl_sub x mean)) numbers of
        Inl e \<Rightarrow> Inl e
      | Inr squares \<Rightarrow> Inr (fl_div (sum_py squares) (real_of_int n)))"

text \<open>Lines 89 to 93: the interpolated value at a percentile \<open>p\<close>.\<close>

definition percentile_value :: "pyfloat list \<Rightarrow> int \<Rightarrow> pyfloat \<Rightarrow> exn + pyfloat" where
  "percentile_value sorted_nums n p =
     (let idx = fl_mul (fl_div p 100) (Fin (real_of_int (n - 1)))
      in case float_to_int idx of
           Inl e \<Rightarrow> Inl e
         | Inr lo \<Rightarrow>
             (let hi = min (lo + 1) (n - 1);
                  frac = fl_sub idx (Fin (real_of_int lo))
              in case py_index sorted_nums lo of
                   Inl e \<Rightarrow> Inl e
                 | Inr a \<Rightarrow>
                     (case py_index sorted_nums hi of
                        Inl e \<Rightarrow> Inl e
                      | Inr b \<Rightarrow> Inr (fl_add (fl_mul a (fl_sub (Fin 1) frac)) (fl_mul b frac)))))"

text \<open>Line 94: the line of a percentile.\<close>

definition percentile_line :: "pyfloat list \<Rightarrow> int \<Rightarrow> nat \<Rightarrow> pyfloat \<Rightarrow> exn + string" where
  "percentile_line sorted_nums n k p =
     (case percentile_value sorted_nums n p of
        Inl e \<Rightarrow> Inl e
      | Inr val \<Rightarrow>
          (case float_to_int p of
             Inl e \<Rightarrow> Inl e
           | Inr ip \<Rightarrow> Inr (''p'' @ ljust6 (str_int ip) @ ''  = '' @ format_f k val)))"

text \<open>The loop of lines 86 to 94 over the sorted percentiles; it returns the lines it appends.\<close>

fun percentile_lines :: "pyfloat list \<Rightarrow> int \<Rightarrow> nat \<Rightarrow> pyfloat list \<Rightarrow> exn + string list" where
  "percentile_lines sorted_nums n k [] = Inr []"
| "percentile_lines sorted_nums n k (p # ps) =
     (if \<not> (fl_le (Fin 0) p \<and> fl_le p (Fin 100)) then percentile_lines sorted_nums n k ps
      else
        (case percentile_line sorted_nums n k p of
           Inl e \<Rightarrow> Inl e
         | Inr l \<Rightarrow>
             (case percentile_lines sorted_nums n k ps of
                Inl e \<Rightarrow> Inl e
              | Inr ls \<Rightarrow> Inr (l # ls))))"

text \<open>
  The lines of the report. A format specification with a negative precision, or one
  beyond a C int, is refused with \<open>ValueError\<close> when the first value is formatted.
\<close>

definition report_lines :: "pyfloat list \<Rightarrow> int \<Rightarrow> pyfloat list \<Rightarrow> exn + string list" where
  "report_lines numbers precision percentiles =
     (let n = int (length numbers);
          sorted_nums = sorted_py numbers;
          total = sum_py numbers;
          mean = fl_div total (real_of_int n)
      in case median_of sorted_nums n of
           Inl e \<Rightarrow> Inl e
         | Inr median \<Rightarrow>
        (case variance_of numbers mean n of
           Inl e \<Rightarrow> Inl e
         | Inr variance \<Rightarrow>
        (case math_sqrt variance of
           Inl e \<Rightarrow> Inl e
         | Inr stddev \<Rightarrow>
        (case py_index sorted_nums 0 of
           Inl e \<Rightarrow> Inl e
         | Inr lowest \<Rightarrow>
        if precision < 0 \<or> 2147483647 < precision then Inl (ValueError ''Invalid format specifier'')
        else
        (case py_index sorted_nums (- 1) of
           Inl e \<Rightarrow> Inl e
         | Inr highest \<Rightarrow>
        (let k = nat precision;
             lines =
               [''n        = '' @ str_int n,
                ''min      = '' @ format_f k lowest,
                ''max      = '' @ format_f k highest,
                ''mean     = '' @ format_f k mean,
                ''median   = '' @ format_f k median,
                ''std_dev  = '' @ format_f k stddev]
         in case percentile_lines sorted_nums n k (sorted_py percentiles) of
              Inl e \<Rightarrow> Inl e
            | Inr more \<Rightarrow> Inr (lines @ more)))))))"

definition compute_stats :: "pyfloat list \<Rightarrow> int \<Rightarrow> pyfloat list \<Rightarrow> exn + string" where
  "compute_stats numbers precision percentiles =
     (if int (length numbers) = 0 then Inr ''Error: empty list''
      else
        (case report_lines numbers precision percentiles of
           Inl e \<Rightarrow> Inl e
         | Inr lines \<Rightarrow> Inr (join_lines lines)))"

subsection \<open>\<open>handle_call\<close>\<close>

text \<open>
  Lines 101 to 117 either return early or fix the three arguments with which line 119
  calls \<open>compute_stats\<close>. \<open>call_args\<close> is that part of the handler: \<open>Inr (Inl r)\<close> is
  an early return of the pair \<open>r\<close>, \<open>Inr (Inr (numbers, precision, percentiles))\<close> the
  arguments of the call, and \<open>Inl e\<close> an exception that no \<open>except\<close> clause catches.
\<close>

definition numbers_error :: string where
  "numbers_error = ''Error: '' @ quoted ''numbers'' @ '' must be a non-empty array''"

definition call_args ::
  "(string \<times> json) list \<Rightarrow> exn + ((string \<times> bool) + (pyfloat list \<times> int \<times> pyfloat list))" where
  "call_args params =
     (case (case map_of params ''numbers'' of Some (JList xs) \<Rightarrow> Some xs | _ \<Rightarrow> None) of
        None \<Rightarrow> Inr (Inl (numbers_error, True))
      | Some raw \<Rightarrow>
        if length raw = 0 then Inr (Inl (numbers_error, True))
        else
        (case map_exn py_float raw of
           Inl e \<Rightarrow>
             if is_type_or_value_error e
             then Inr (Inl (''Error: non-numeric value in numbers: '' @ exn_str e, True))
             else Inl e
         | Inr numbers \<Rightarrow>
        (case py_int (case map_of params ''precision'' of None \<Rightarrow> JInt 4 | Some v \<Rightarrow> v) of
           Inl e \<Rightarrow> Inl e
         | Inr precision0 \<Rightarrow>
        (let precision = max 0 (min precision0 10);
             raw_pcts = (case map_of params ''percentiles'' of None \<Rightarrow> JList [] | Some v \<Rightarrow> v)
         in case (case py_iter raw_pcts of Inl e \<Rightarrow> Inl e | Inr ps \<Rightarrow> map_exn py_float ps) of
              Inl e \<Rightarrow>
                if is_type_or_value_error e then Inr (Inr (numbers, precision, []))
                else Inl e
            | Inr percentiles \<Rightarrow> Inr (Inr (numbers, precision, percentiles))))))"

text \<open>
  \<open>handle_call\<close> on the value of \<open>params\<close>. Its first statement calls \<open>params.get\<close>,
  which only a dict has.
\<close>

definition no_get :: "json \<Rightarrow> exn" where
  "no_get v = AttributeError (quoted (type_name v) @ '' object has no attribute '' @ quoted ''get'')"

fun handle_call :: "json \<Rightarrow> exn + (string \<times> bool)" where
  "handle_call (JObj params) =
     (case call_args params of
        Inl e \<Rightarrow> Inl e
      | Inr (Inl early) \<Rightarrow> Inr early
      | Inr (Inr (numbers, precision, percentiles)) \<Rightarrow>
          (case compute_stats numbers precision percentiles of
             Inl e \<Rightarrow> Inl e
           | Inr result \<Rightarrow> Inr (result, False)))"
| "handle_call v = Inl (no_get v)"

subsection \<open>\<open>main\<close>\<close>

text \<open>
  An input line is its text together with what \<open>json.loads\<close> returns on the stripped
  text: a document, or a \<open>JSONDecodeError\<close> with its message (any other exception of
  \<open>json.loads\<close> is outside the model). A response is the
  descriptor, a content document with its text and error flag, or the content document
  of an unknown message type, whose text is \<open>Unknown message type:\<close> followed by the
  \<open>repr\<close> of the value carried and whose error flag is true.
\<close>

datatype loaded = Document json | JSONDecodeError string

datatype response = Descriptor | Content string bool | Unknown_type json

text \<open>\<open>msg.get(key, default)\<close> on the value of \<open>msg\<close>.\<close>

fun msg_get :: "json \<Rightarrow> string \<Rightarrow> json \<Rightarrow> exn + json" where
  "msg_get (JObj d) key dflt = Inr (case map_of d key of None \<Rightarrow> dflt | Some v \<Rightarrow> v)"
| "msg_get v key dflt = Inl (no_get v)"

text \<open>The body of the loop on one line: the responses printed (none or one), or the exception raised.\<close>

definition process_line :: "string \<times> loaded \<Rightarrow> exn + response list" where
  "process_line line =
     (let raw_line = py_strip (fst line)
      in if raw_line = [] then Inr []
         else
           (case snd line of
              JSONDecodeError e \<Rightarrow> Inr [Content (''JSON parse error: '' @ e) True]
            | Document msg \<Rightarrow>
                (case msg_get msg ''type'' JNull of
                   Inl e \<Rightarrow> Inl e
                 | Inr msg_type \<Rightarrow>
                     if msg_type = JStr ''describe'' then Inr [Descriptor]
                     else if msg_type = JStr ''call'' then
                       (case msg_get msg ''params'' (JObj []) of
                          Inl e \<Rightarrow> Inl e
                        | Inr params \<Rightarrow>
                            (case handle_call params of
                               Inl e \<Rightarrow> Inl e
                             | Inr (text, err) \<Rightarrow> Inr [Content text err]))
                     else Inr [Unknown_type msg_type])))"

text \<open>
  The loop over the lines of standard input: the responses printed, and the exception
  that ended the process if one escaped (\<open>None\<close> when the input was read to its end).
\<close>

fun main :: "(string \<times> loaded) list \<Rightarrow> response list \<times> exn option" where
  "main [] = ([], None)"
| "main (line # rest) =
     (case process_line line of
        Inl e \<Rightarrow> ([], Some e)
      | Inr out \<Rightarrow> (let (outs, r) = main rest in (out @ outs, r)))"

text \<open>The request line \<open>{"type": "describe"}\<close> as \<open>main\<close> reads it.\<close>

definition describe_request :: "string \<times> loaded" where
  "describe_request =
     (''{'' @ [CHR 0x22] @ ''type'' @ [CHR 0x22] @ '': '' @ [CHR 0x22] @ ''describe'' @ [CHR 0x22] @ ''}'',
      Document (JObj [(''type'', JStr ''describe'')]))"

section \<open>Evaluation\<close>

text \<open>
  Facts that let the simplifier run the definitions on concrete input: values far
  inside the float range are not rounded to an infinity, and the text functions unfold
  on numerals.
\<close>

declare str_nat.simps [simp del]

lemma overflow_bound_pos: "0 < overflow_bound"
  by (simp add: overflow_bound_def)

lemma overflow_bound_large: "10 ^ 300 < overflow_bound"
  by (simp add: overflow_bound_def)

lemma int_to_float_small: "\<bar>i\<bar> \<le> 10 ^ 300 \<Longrightarrow> int_to_float i = Inr (Fin (real_of_int i))"
proof -
  assume "\<bar>i\<bar> \<le> 10 ^ 300"
  then have "\<bar>real_of_int i\<bar> \<le> 10 ^ 300"
    by (metis of_int_abs of_int_le_iff of_int_numeral of_int_power)
  with overflow_bound_large show ?thesis
    by (simp add: int_to_float_def)
qed

lemma fl_round_small:
  assumes "\<bar>r\<bar> \<le> 10 ^ 300"
  shows "fl_round r = Fin r"
proof -
  have "r < overflow_bound" and "- overflow_bound < r"
    using assms overflow_bound_large by linarith+
  then show ?thesis by (simp add: fl_round_def)
qed

lemma replicate_numeral: "replicate (numeral v) x = x # replicate (numeral v - 1) x"
  by (simp add: numeral_eq_Suc)

lemmas eval_text =
  round_half_even_def str_nat.simps digit_char_def zero_pad_def replicate_numeral
  str_int_def ljust6_def

lemma map_exn_length: "map_exn f xs = Inr ys \<Longrightarrow> length ys = length xs"
  by (induction xs arbitrary: ys) (auto split: sum.splits)

section \<open>The message loop\<close>

text \<open>
  Claim C1 says that no input line, whatever its JSON shape, crashes the process or
  stops the loop, and that every error path emits a response. Line 140 calls
  \<open>msg.get\<close> on whatever \<open>json.loads\<close> returned. On the line \<open>[1]\<close>, a valid
  JSON document that is a list, the call raises \<open>AttributeError\<close>, which nothing
  catches: the process ends without a response, and the \<open>describe\<close> request on the
  next line is never answered. The line is one the code can receive, and the error
  paths next to it (a line that is not JSON, an unknown message type) do emit a
  response and continue.
\<close>

theorem main_stops_on_list_document:
  "main [(''[1]'', Document (JList [JInt 1])), describe_request] =
     ([], Some (AttributeError (quoted ''list'' @ '' object has no attribute '' @ quoted ''get'')))"
  by (simp add: process_line_def py_strip_def is_space_def no_get_def)

section \<open>The call handler and uncaught exceptions\<close>

text \<open>
  Claim C2 says that \<open>handle_call\<close> returns a pair for every parameter bag and never
  raises. The conversion \<open>int(params.get("precision", 4))\<close> of line 110 stands outside
  both \<open>try\<close> blocks: on the bag \<open>{"numbers": [1], "precision": null}\<close> it raises
  \<open>TypeError\<close>, and the exception leaves the handler.
\<close>

theorem handle_call_raises_on_null_precision:
  "handle_call (JObj [(''numbers'', JList [JInt 1]), (''precision'', JNull)]) =
     Inl (TypeError (''int() argument must be a string, a bytes-like object or a real number, not ''
                     @ quoted ''NoneType''))"
  by (simp add: call_args_def int_to_float_small)

text \<open>
  Claim C4 says that a bag whose \<open>numbers\<close> holds an element that cannot be coerced is
  answered with \<open>is_error = true\<close> and a text beginning
  \<open>Error: non-numeric value in numbers:\<close>. The \<open>except\<close> clause of line 107 lists
  \<open>TypeError\<close> and \<open>ValueError\<close> only. On \<open>{"numbers": [10^400, "a"]}\<close> the
  first conversion, \<open>float\<close> of an int beyond the float range, raises
  \<open>OverflowError\<close>: no pair is returned.
\<close>

theorem handle_call_raises_on_huge_number:
  "handle_call (JObj [(''numbers'', JList [JInt (10 ^ 400), JStr ''a''])]) =
     Inl (OverflowError ''int too large to convert to float'')"
  by (simp add: call_args_def int_to_float_def overflow_bound_def)

text \<open>
  Claim C9 says that percentiles of which an element fails numeric coercion are
  dropped and the call still succeeds. The \<open>except\<close> clause of line 116 again lists
  \<open>TypeError\<close> and \<open>ValueError\<close> only: on
  \<open>{"numbers": [1], "percentiles": [10^400]}\<close> the element fails with
  \<open>OverflowError\<close> and the call raises instead of reporting without percentiles.
\<close>

theorem handle_call_raises_on_huge_percentile:
  "handle_call (JObj [(''numbers'', JList [JInt 1]), (''percentiles'', JList [JInt (10 ^ 400)])]) =
     Inl (OverflowError ''int too large to convert to float'')"
  by (simp add: call_args_def int_to_float_def overflow_bound_def)

section \<open>The sample that reaches the computation\<close>

text \<open>
  Claim C3 says that the sample passed to \<open>compute_stats\<close> is a non-empty sequence of
  finite reals, non-finite input being rejected before. The handler has no test of
  finiteness: the JSON number \<open>1e999\<close> is read as \<open>inf\<close>, \<open>float\<close> returns it
  unchanged, and \<open>compute_stats\<close> is called on \<open>[inf]\<close>.
\<close>

theorem call_args_passes_infinity:
  "call_args [(''numbers'', JList [JFloat PInf])] = Inr (Inr ([PInf], 4, []))
   \<and> \<not> list_all is_finite [PInf]"
  by (simp add: call_args_def)

text \<open>
  Claim C3 as amended: whenever the handler reaches the call of \<open>compute_stats\<close>, the
  sample is non-empty; it holds, in order, the value \<open>float\<close> gives for each element
  of the list stored under \<open>numbers\<close>, and that list is present and non-empty. A missing
  \<open>numbers\<close>, one that is no list and an empty list never reach the computation.
  Finiteness of the elements is not promised.
\<close>

theorem call_args_sample_nonempty:
  assumes "call_args params = Inr (Inr (numbers, precision, percentiles))"
  shows "numbers \<noteq> [] \<and>
         (\<exists>raw. map_of params ''numbers'' = Some (JList raw) \<and> raw \<noteq> []
                \<and> map_exn py_float raw = Inr numbers \<and> length numbers = length raw)"
  using assms
  by (auto simp: call_args_def Let_def dest: map_exn_length
           split: option.splits json.splits sum.splits if_splits)

theorem call_args_sample_nonempty_witness:
  "call_args [(''numbers'', JList [JInt 1])] = Inr (Inr ([Fin 1], 4, []))
   \<and> [Fin 1] \<noteq> []"
  using call_args_sample_nonempty [of "[(''numbers'', JList [JInt 1])]" "[Fin 1]" 4 "[]"]
  by (simp add: call_args_def int_to_float_small)

section \<open>The report on one to five\<close>

lemma sqrt2_lower: "14142 / 10000 \<le> sqrt 2"
  by (rule real_le_rsqrt) (simp add: power2_eq_square)

lemma sqrt2_upper: "sqrt 2 < 141425 / 100000"
  by (rule real_less_lsqrt) (simp_all add: power2_eq_square)

lemma round_sqrt2: "round_half_even (sqrt 2 * 10 ^ 4) = 14142"
proof -
  have lo: "14142 \<le> sqrt 2 * 10 ^ 4" using sqrt2_lower by simp
  have hi: "sqrt 2 * 10 ^ 4 < 14142 + 1 / 2" using sqrt2_upper by simp
  have fl: "\<lfloor>sqrt 2 * 10 ^ 4\<rfloor> = 14142"
    using lo hi by (intro floor_unique) simp_all
  show ?thesis
    unfolding round_half_even_def Let_def fl using hi by simp
qed

lemma format_sqrt2: "format_f 4 (Fin (sqrt 2)) = ''1.4142''"
  using round_sqrt2 by (simp add: str_nat.simps digit_char_def zero_pad_def replicate_numeral)

lemma call_args_one_to_five:
  "call_args [(''numbers'', JList [JInt 1, JInt 2, JInt 3, JInt 4, JInt 5])] =
     Inr (Inr ([Fin 1, Fin 2, Fin 3, Fin 4, Fin 5], 4, []))"
  by (simp add: call_args_def int_to_float_small)

lemma median_one_to_five: "median_of [Fin 1, Fin 2, Fin 3, Fin 4, Fin 5] 5 = Inr (Fin 3)"
  by (simp add: median_of_def py_index_def)

lemma variance_one_to_five:
  "variance_of [Fin 1, Fin 2, Fin 3, Fin 4, Fin 5] (Fin 3) 5 = Inr (Fin 2)"
  using overflow_bound_large
  by (simp add: variance_of_def fl_sub_def fl_round_small sum_py_def)

lemma sorted_one_to_five:
  "sorted_py [Fin 1, Fin 2, Fin 3, Fin 4, Fin 5] = [Fin 1, Fin 2, Fin 3, Fin 4, Fin 5]"
  by (simp add: sorted_py_def)

lemma sum_one_to_five: "sum_py [Fin 1, Fin 2, Fin 3, Fin 4, Fin 5] = Fin 15"
  by (simp add: sum_py_def fl_round_small)

lemma format_one: "format_f 4 (Fin 1) = ''1.0000''"
  by (simp add: eval_text)

lemma format_three: "format_f 4 (Fin 3) = ''3.0000''"
  by (simp add: eval_text)

lemma format_five: "format_f 4 (Fin 5) = ''5.0000''"
  by (simp add: eval_text)

lemma str_int_five: "str_int 5 = ''5''"
  by (simp add: eval_text)

lemma report_one_to_five:
  "report_lines [Fin 1, Fin 2, Fin 3, Fin 4, Fin 5] 4 [] =
     Inr [''n        = 5'', ''min      = 1.0000'', ''max      = 5.0000'', ''mean     = 3.0000'',
          ''median   = 3.0000'', ''std_dev  = 1.4142'']"
  unfolding report_lines_def
  by (simp add: sorted_one_to_five sum_one_to_five fl_round_small median_one_to_five
        variance_one_to_five py_index_def format_sqrt2 format_one format_three format_five
        str_int_five Let_def sorted_py_def del: format_f.simps)

text \<open>
  Claim C6: on \<open>{"numbers": [1, 2, 3, 4, 5]}\<close>, with no precision and no percentiles
  given, the handler returns \<open>is_error = false\<close> and the six lines \<open>n = 5\<close>,
  \<open>min = 1.0000\<close>, \<open>max = 5.0000\<close>, \<open>mean = 3.0000\<close>, \<open>median = 3.0000\<close>,
  \<open>std_dev = 1.4142\<close>: each value in fixed-point notation with four decimals, \<open>n\<close> as
  a plain integer. In this run every float but the square root of the variance \<open>2\<close>
  is a small integer, which binary64 holds exactly, and the square root lies more than
  \<open>10^-5\<close> away from the nearest rounding boundary of the fourth decimal.
\<close>

theorem handle_call_one_to_five:
  "handle_call (JObj [(''numbers'', JList [JInt 1, JInt 2, JInt 3, JInt 4, JInt 5])]) =
     Inr (join_lines [''n        = 5'', ''min      = 1.0000'', ''max      = 5.0000'',
                      ''mean     = 3.0000'', ''median   = 3.0000'', ''std_dev  = 1.4142''], False)"
  by (simp add: call_args_one_to_five compute_stats_def report_one_to_five)

section \<open>The report on one and three\<close>

text \<open>A second run, used below where a statement needs a concrete input: the sample \<open>[1, 3]\<close>.\<close>

lemma call_args_one_three:
  "call_args [(''numbers'', JList [JInt 1, JInt 3])] = Inr (Inr ([Fin 1, Fin 3], 4, []))"
  by (simp add: call_args_def int_to_float_small)

lemma format_two: "format_f 4 (Fin 2) = ''2.0000''"
  by (simp add: eval_text)

lemma report_one_three:
  "report_lines [Fin 1, Fin 3] 4 [] =
     Inr [''n        = 2'', ''min      = 1.0000'', ''max      = 3.0000'', ''mean     = 2.0000'',
          ''median   = 2.0000'', ''std_dev  = 1.0000'']"
proof -
  have s: "sorted_py [Fin 1, Fin 3] = [Fin 1, Fin 3]" by (simp add: sorted_py_def)
  have t: "sum_py [Fin 1, Fin 3] = Fin 4" by (simp add: sum_py_def fl_round_small)
  have m: "median_of [Fin 1, Fin 3] 2 = Inr (Fin 2)"
    by (simp add: median_of_def py_index_def fl_round_small)
  have v: "variance_of [Fin 1, Fin 3] (Fin 2) 2 = Inr (Fin 1)"
    using overflow_bound_large
    by (simp add: variance_of_def fl_sub_def fl_round_small sum_py_def)
  have n: "str_int 2 = ''2''" by (simp add: eval_text)
  show ?thesis
    unfolding report_lines_def
    by (simp add: s t m v n fl_round_small py_index_def format_one format_two format_three
          Let_def sorted_py_def del: format_f.simps)
qed

lemma compute_stats_one_three:
  "compute_stats [Fin 1, Fin 3] 4 [] =
     Inr (join_lines [''n        = 2'', ''min      = 1.0000'', ''max      = 3.0000'',
                      ''mean     = 2.0000'', ''median   = 2.0000'', ''std_dev  = 1.0000''])"
  by (simp add: compute_stats_def report_one_three)

lemma handle_call_one_three:
  "handle_call (JObj [(''numbers'', JList [JInt 1, JInt 3])]) =
     Inr (join_lines [''n        = 2'', ''min      = 1.0000'', ''max      = 3.0000'',
                      ''mean     = 2.0000'', ''median   = 2.0000'', ''std_dev  = 1.0000''], False)"
  using compute_stats_one_three by (simp add: call_args_one_three)

section \<open>The shape of a report\<close>

text \<open>
  When \<open>report_lines\<close> returns, its result is the six base lines, built from the values
  the function computed, followed by the lines of the percentile loop.
\<close>

lemma report_lines_shape:
  assumes "report_lines numbers precision percentiles = Inr ls"
  shows "\<exists>median variance stddev lowest highest more.
           median_of (sorted_py numbers) (int (length numbers)) = Inr median \<and>
           variance_of numbers (fl_div (sum_py numbers) (real_of_int (int (length numbers))))
             (int (length numbers)) = Inr variance \<and>
           math_sqrt variance = Inr stddev \<and>
           py_index (sorted_py numbers) 0 = Inr lowest \<and>
           py_index (sorted_py numbers) (- 1) = Inr highest \<and>
           0 \<le> precision \<and>
           percentile_lines (sorted_py numbers) (int (length numbers)) (nat precision)
             (sorted_py percentiles) = Inr more \<and>
           ls = [''n        = '' @ str_int (int (length numbers)),
                 ''min      = '' @ format_f (nat precision) lowest,
                 ''max      = '' @ format_f (nat precision) highest,
                 ''mean     = '' @ format_f (nat precision)
                    (fl_div (sum_py numbers) (real_of_int (int (length numbers)))),
                 ''median   = '' @ format_f (nat precision) median,
                 ''std_dev  = '' @ format_f (nat precision) stddev] @ more"
  using assms unfolding report_lines_def Let_def
  by (auto split: sum.splits if_splits)

lemma join_lines_not_error:
  "join_lines ((''n        = '' @ s) # ls) \<noteq> ''Error: empty list''"
  by (cases ls) simp_all

lemma call_args_early_flag: "call_args d = Inr (Inl (t, b)) \<Longrightarrow> b"
  by (auto simp: call_args_def Let_def split: option.splits json.splits sum.splits if_splits)

lemma call_args_numbers_nonempty:
  "call_args d = Inr (Inr (numbers, precision, percentiles)) \<Longrightarrow> numbers \<noteq> []"
  by (auto simp: call_args_def Let_def dest: map_exn_length
           split: option.splits json.splits sum.splits if_splits)

text \<open>
  A successful return of the handler comes from line 120: the bag is a dict, lines 101
  to 117 fixed the arguments of \<open>compute_stats\<close>, and the text is the joined report.
\<close>

lemma handle_call_success:
  assumes "handle_call params = Inr (text, False)"
  shows "\<exists>d numbers precision percentiles lines.
           params = JObj d \<and> call_args d = Inr (Inr (numbers, precision, percentiles)) \<and>
           numbers \<noteq> [] \<and> report_lines numbers precision percentiles = Inr lines \<and>
           text = join_lines lines"
proof (cases params)
  case (JObj d)
  show ?thesis
  proof (cases "call_args d")
    case (Inl e)
    with JObj assms show ?thesis by simp
  next
    case (Inr r)
    show ?thesis
    proof (cases r)
      case (Inl early)
      with Inr JObj assms have "call_args d = Inr (Inl (text, False))" by simp
      then show ?thesis by (auto dest: call_args_early_flag)
    next
      case (Inr args)
      obtain numbers precision percentiles where args: "args = (numbers, precision, percentiles)"
        by (cases args) auto
      have ca: "call_args d = Inr (Inr (numbers, precision, percentiles))"
        using \<open>call_args d = Inr r\<close> Inr args by simp
      then have ne: "numbers \<noteq> []" by (rule call_args_numbers_nonempty)
      have "compute_stats numbers precision percentiles = Inr text"
        using assms JObj ca by (simp split: sum.splits)
      with ne obtain lines where "report_lines numbers precision percentiles = Inr lines"
        and "text = join_lines lines"
        by (auto simp: compute_stats_def split: sum.splits)
      with JObj ca ne show ?thesis by blast
    qed
  qed
qed (use assms in simp_all)

text \<open>
  Claim C10: for every value of \<open>params\<close> the handler never returns the pair
  \<open>("Error: empty list", false)\<close>: the guard \<open>n == 0\<close> of \<open>compute_stats\<close> cannot be
  reached through \<open>handle_call\<close>. Whenever the handler returns \<open>is_error = false\<close>, the
  text is a statistics report: the lines of \<open>report_lines\<close> on a non-empty sample, joined
  by newlines, at least six of them, the first being \<open>n        = \<close> followed by the size of
  the sample.
\<close>

theorem success_is_a_report:
  "handle_call params \<noteq> Inr (''Error: empty list'', False) \<and>
   (handle_call params = Inr (text, False) \<longrightarrow>
      (\<exists>d numbers precision percentiles lines.
         params = JObj d \<and> call_args d = Inr (Inr (numbers, precision, percentiles)) \<and>
         numbers \<noteq> [] \<and> report_lines numbers precision percentiles = Inr lines \<and>
         text = join_lines lines \<and> 6 \<le> length lines \<and>
         hd lines = ''n        = '' @ str_int (int (length numbers))))"
proof -
  have shape: "6 \<le> length lines \<and> hd lines = ''n        = '' @ str_int (int (length numbers))"
    if "report_lines numbers precision percentiles = Inr lines"
    for numbers precision percentiles lines
    using report_lines_shape [OF that] by auto
  have "handle_call params \<noteq> Inr (''Error: empty list'', False)"
  proof
    assume "handle_call params = Inr (''Error: empty list'', False)"
    from handle_call_success [OF this] obtain numbers precision percentiles lines
      where rl: "report_lines numbers precision percentiles = Inr lines"
        and t: "''Error: empty list'' = join_lines lines"
      by blast
    from shape [OF rl] obtain rest s where "lines = (''n        = '' @ s) # rest"
      by (cases lines) auto
    with t join_lines_not_error [of s rest] show False by simp
  qed
  moreover have "handle_call params = Inr (text, False) \<longrightarrow>
      (\<exists>d numbers precision percentiles lines.
         params = JObj d \<and> call_args d = Inr (Inr (numbers, precision, percentiles)) \<and>
         numbers \<noteq> [] \<and> report_lines numbers precision percentiles = Inr lines \<and>
         text = join_lines lines \<and> 6 \<le> length lines \<and>
         hd lines = ''n        = '' @ str_int (int (length numbers)))"
    using handle_call_success shape by blast
  ultimately show ?thesis by blast
qed

theorem success_is_a_report_witness:
  "handle_call (JObj [(''numbers'', JList [JInt 1, JInt 3])]) =
     Inr (join_lines [''n        = 2'', ''min      = 1.0000'', ''max      = 3.0000'',
                      ''mean     = 2.0000'', ''median   = 2.0000'', ''std_dev  = 1.0000''], False)
   \<and> (\<exists>lines. report_lines [Fin 1, Fin 3] 4 [] = Inr lines \<and> 6 \<le> length lines \<and>
        hd lines = ''n        = '' @ str_int 2)"
proof -
  from success_is_a_report [of "JObj [(''numbers'', JList [JInt 1, JInt 3])]"
      "join_lines [''n        = 2'', ''min      = 1.0000'', ''max      = 3.0000'',
                   ''mean     = 2.0000'', ''median   = 2.0000'', ''std_dev  = 1.0000'']"]
    handle_call_one_three
  obtain d numbers precision percentiles lines where
    "JObj [(''numbers'', JList [JInt 1, JInt 3])] = JObj d"
    "call_args d = Inr (Inr (numbers, precision, percentiles))"
    "report_lines numbers precision percentiles = Inr lines"
    "6 \<le> length lines" "hd lines = ''n        = '' @ str_int (int (length numbers))"
    by blast
  then show ?thesis
    using handle_call_one_three by (auto simp: call_args_one_three)
qed

section \<open>The median\<close>

text \<open>On a sample of finite floats \<open>sorted\<close> is the ascending sort of the values.\<close>

lemma insort_key_Fin: "insort_key fl_key (Fin x) (map Fin ys) = map Fin (insort x ys)"
  by (induction ys) auto

lemma sorted_py_Fin: "sorted_py (map Fin xs) = map Fin (sort xs)"
  by (induction xs) (simp_all add: sorted_py_def insort_key_Fin)



text \<open>The float average of two finite values is their exact average unless the sum leaves the range.\<close>

lemma fl_average_exact:
  "\<bar>a + b\<bar> < overflow_bound \<Longrightarrow> fl_div (fl_add (Fin a) (Fin b)) 2 = Fin ((a + b) / 2)"
  using overflow_bound_pos by (auto simp: fl_round_def)



section \<open>The precision\<close>




section \<open>What the handler reports as an error\<close>

text \<open>
  When \<open>numbers\<close> is missing, is no list or is the empty list, the handler returns the
  fixed diagnostic with \<open>is_error = true\<close>.
\<close>

theorem numbers_missing_or_empty:
  assumes "(\<forall>xs. map_of d ''numbers'' \<noteq> Some (JList xs)) \<or> map_of d ''numbers'' = Some (JList [])"
  shows "handle_call (JObj d) =
           Inr (''Error: '' @ [CHR 0x27] @ ''numbers'' @ [CHR 0x27] @ '' must be a non-empty array'', True)"
  using assms
  by (auto simp: call_args_def numbers_error_def quoted_def split: option.splits json.splits)

theorem numbers_missing_or_empty_witness:
  "map_of [(''numbers'', JList [])] ''numbers'' = Some (JList []) \<and>
   handle_call (JObj [(''numbers'', JList [])]) =
     Inr (''Error: '' @ [CHR 0x27] @ ''numbers'' @ [CHR 0x27] @ '' must be a non-empty array'', True)"
  using numbers_missing_or_empty [of "[(''numbers'', JList [])]"] by simp

text \<open>
  When \<open>numbers\<close> is a non-empty list and the conversion of its elements stops at a
  \<open>TypeError\<close> or a \<open>ValueError\<close>, the handler returns \<open>is_error = true\<close> and the
  text \<open>Error: non-numeric value in numbers: \<close> followed by the message of the exception.
  For \<open>numbers = ["a"]\<close> the message is that of \<open>float("a")\<close>.
\<close>

theorem non_numeric_element:
  assumes "map_of d ''numbers'' = Some (JList raw)" and "raw \<noteq> []"
    and "map_exn py_float raw = Inl e" and "is_type_or_value_error e"
  shows "handle_call (JObj d) = Inr (''Error: non-numeric value in numbers: '' @ exn_str e, True)"
  using assms by (simp add: call_args_def)

lemma float_of_a:
  "py_float (JStr ''a'') =
     Inl (ValueError (''could not convert string to float: '' @ [CHR 0x27] @ ''a'' @ [CHR 0x27]))"
  by (simp add: parse_float_def py_strip_def is_space_def is_digit_def lower_char_def
        parse_decimal_def repr_str_def repr_char_def is_printable_def Let_def)

theorem non_numeric_element_witness:
  "map_of [(''numbers'', JList [JStr ''a''])] ''numbers'' = Some (JList [JStr ''a'']) \<and>
   [JStr ''a''] \<noteq> [] \<and>
   handle_call (JObj [(''numbers'', JList [JStr ''a''])]) =
     Inr (''Error: non-numeric value in numbers: could not convert string to float: ''
          @ [CHR 0x27] @ ''a'' @ [CHR 0x27], True)"
proof -
  have look: "map_of [(''numbers'', JList [JStr ''a''])] ''numbers'' = Some (JList [JStr ''a''])"
    by simp
  have ne: "[JStr ''a''] \<noteq> []" by simp
  have conv: "map_exn py_float [JStr ''a''] =
      Inl (ValueError (''could not convert string to float: '' @ [CHR 0x27] @ ''a'' @ [CHR 0x27]))"
    by (simp add: float_of_a del: py_float.simps)
  have caught: "is_type_or_value_error
      (ValueError (''could not convert string to float: '' @ [CHR 0x27] @ ''a'' @ [CHR 0x27]))"
    by simp
  from non_numeric_element [OF look ne conv caught] look ne show ?thesis by simp
qed

text \<open>
  When lines 101 to 117 reach the call of \<open>compute_stats\<close> and \<open>percentiles\<close> is absent,
  or iterating and converting it stopped at an exception (which was then a \<open>TypeError\<close>
  or a \<open>ValueError\<close>, the call being reached), the percentiles passed are the empty
  list; and if the handler then returns, it returns \<open>is_error = false\<close> and a report of
  exactly the six base lines.
\<close>

lemma sorted_py_nil: "sorted_py [] = []"
  by (simp add: sorted_py_def)

theorem percentiles_dropped:
  assumes "call_args d = Inr (Inr (numbers, precision, percentiles))"
    and "map_of d ''percentiles'' = None \<or>
         (\<exists>v e. map_of d ''percentiles'' = Some v \<and>
            (case py_iter v of Inl e \<Rightarrow> Inl e | Inr ps \<Rightarrow> map_exn py_float ps) = Inl e)"
    and "handle_call (JObj d) = Inr (text, err)"
  shows "percentiles = [] \<and> \<not> err \<and>
         (\<exists>lines. report_lines numbers precision [] = Inr lines \<and> text = join_lines lines
                  \<and> length lines = 6)"
proof -
  have p: "percentiles = []"
    using assms(1,2)
    by (auto simp: call_args_def Let_def split: option.splits json.splits sum.splits if_splits)
  have ne: "numbers \<noteq> []" using assms(1) by (rule call_args_numbers_nonempty)
  from assms(3) assms(1) p ne obtain lines where
    rl: "report_lines numbers precision [] = Inr lines" and t: "text = join_lines lines" and e: "\<not> err"
    by (auto simp: compute_stats_def split: sum.splits)
  from report_lines_shape [OF rl] have "length lines = 6"
    by (auto simp: sorted_py_nil)
  with p rl t e show ?thesis by blast
qed

theorem percentiles_dropped_witness:
  "call_args [(''numbers'', JList [JInt 1, JInt 3]), (''percentiles'', JNull)] =
     Inr (Inr ([Fin 1, Fin 3], 4, [])) \<and>
   handle_call (JObj [(''numbers'', JList [JInt 1, JInt 3]), (''percentiles'', JNull)]) =
     Inr (join_lines [''n        = 2'', ''min      = 1.0000'', ''max      = 3.0000'',
                      ''mean     = 2.0000'', ''median   = 2.0000'', ''std_dev  = 1.0000''], False)
   \<and> (\<exists>lines. report_lines [Fin 1, Fin 3] 4 [] = Inr lines \<and> length lines = 6)"
proof -
  have ca: "call_args [(''numbers'', JList [JInt 1, JInt 3]), (''percentiles'', JNull)] =
     Inr (Inr ([Fin 1, Fin 3], 4, []))"
    by (simp add: call_args_def int_to_float_small)
  have hc: "handle_call (JObj [(''numbers'', JList [JInt 1, JInt 3]), (''percentiles'', JNull)]) =
     Inr (join_lines [''n        = 2'', ''min      = 1.0000'', ''max      = 3.0000'',
                      ''mean     = 2.0000'', ''median   = 2.0000'', ''std_dev  = 1.0000''], False)"
    using compute_stats_one_three by (simp add: ca)
  have fails:
    "map_of [(''numbers'', JList [JInt 1, JInt 3]), (''percentiles'', JNull)] ''percentiles'' = None \<or>
     (\<exists>v e. map_of [(''numbers'', JList [JInt 1, JInt 3]), (''percentiles'', JNull)] ''percentiles''
               = Some v \<and>
        (case py_iter v of Inl e \<Rightarrow> Inl e | Inr ps \<Rightarrow> map_exn py_float ps) = Inl e)"
    by simp
  from percentiles_dropped [OF ca fails hc] ca hc show ?thesis by blast
qed

section \<open>The error paths of the loop that do continue\<close>

text \<open>
  A non-blank line that is not JSON is answered with one content document, whose error
  flag is true and whose text is \<open>JSON parse error: \<close> followed by the decoder's
  message, and the loop goes on with the lines that follow.
\<close>

theorem malformed_line_answered:
  assumes "py_strip raw \<noteq> []"
  shows "main ((raw, JSONDecodeError e) # rest) =
           (Content (''JSON parse error: '' @ e) True # fst (main rest), snd (main rest))"
  using assms by (simp add: process_line_def split: prod.splits)

theorem malformed_line_answered_witness:
  "py_strip ''{oops'' \<noteq> [] \<and>
   main [(''{oops'', JSONDecodeError ''Expecting property name''), describe_request] =
     ([Content (''JSON parse error: Expecting property name'') True, Descriptor], None)"
  using malformed_line_answered [of "''{oops''" "''Expecting property name''" "[describe_request]"]
  by (simp add: process_line_def py_strip_def is_space_def describe_request_def)

text \<open>
  A line whose document is an object and whose type is not \<open>call\<close> never raises: it is
  answered with the descriptor when the type is \<open>describe\<close>, with the error document of
  an unknown message type otherwise, and with nothing when the line is blank.
\<close>

theorem object_line_answered:
  assumes "snd line = Document (JObj d)" and "map_of d ''type'' \<noteq> Some (JStr ''call'')"
  shows "process_line line =
           Inr (if py_strip (fst line) = [] then []
                else if map_of d ''type'' = Some (JStr ''describe'') then [Descriptor]
                else [Unknown_type (case map_of d ''type'' of None \<Rightarrow> JNull | Some v \<Rightarrow> v)])"
  using assms by (auto simp: process_line_def split: option.splits)

theorem object_line_answered_witness:
  "snd describe_request = Document (JObj [(''type'', JStr ''describe'')]) \<and>
   map_of [(''type'', JStr ''describe'')] ''type'' \<noteq> Some (JStr ''call'') \<and>
   process_line describe_request = Inr [Descriptor]"
  using object_line_answered [of describe_request "[(''type'', JStr ''describe'')]"]
  by (simp add: describe_request_def py_strip_def is_space_def)

section \<open>Percentile interpolation in exact arithmetic\<close>

lemma fl_round_in_range: "\<bar>r\<bar> < overflow_bound \<Longrightarrow> fl_round r = Fin r"
  by (auto simp: fl_round_def)

lemma convex_bounds:
  fixes a b f :: real
  assumes "a \<le> b" "0 \<le> f" "f \<le> 1"
  shows "a \<le> a * (1 - f) + b * f" and "a * (1 - f) + b * f \<le> b"
proof -
  have e: "a * (1 - f) + b * f = a + f * (b - a)" by (simp add: algebra_simps)
  have "0 \<le> f * (b - a)" using assms by simp
  then show "a \<le> a * (1 - f) + b * f" using e by linarith
  have e2: "a * (1 - f) + b * f = b - (1 - f) * (b - a)" by (simp add: algebra_simps)
  have "0 \<le> (1 - f) * (b - a)" using assms by simp
  then show "a * (1 - f) + b * f \<le> b" using e2 by linarith
qed

lemma convex_abs:
  fixes a b f B :: real
  assumes "\<bar>a\<bar> < B" "\<bar>b\<bar> < B" "0 \<le> f" "f \<le> 1"
  shows "\<bar>a * (1 - f)\<bar> < B" and "\<bar>b * f\<bar> < B" and "\<bar>a * (1 - f) + b * f\<bar> < B"
proof -
  have a1: "\<bar>a * (1 - f)\<bar> = \<bar>a\<bar> * (1 - f)" using assms by (simp add: abs_mult)
  have b1: "\<bar>b * f\<bar> = \<bar>b\<bar> * f" using assms by (simp add: abs_mult)
  have "\<bar>a\<bar> * (1 - f) \<le> \<bar>a\<bar>" using assms by (simp add: mult_left_le)
  with a1 assms show "\<bar>a * (1 - f)\<bar> < B" by linarith
  have "\<bar>b\<bar> * f \<le> \<bar>b\<bar>" using assms by (simp add: mult_left_le)
  with b1 assms show "\<bar>b * f\<bar> < B" by linarith
  have le: "\<bar>a\<bar> * (1 - f) + \<bar>b\<bar> * f \<le> max \<bar>a\<bar> \<bar>b\<bar>"
  proof -
    have "\<bar>a\<bar> * (1 - f) \<le> max \<bar>a\<bar> \<bar>b\<bar> * (1 - f)" using assms by (simp add: mult_right_mono)
    moreover have "\<bar>b\<bar> * f \<le> max \<bar>a\<bar> \<bar>b\<bar> * f" using assms by (simp add: mult_right_mono)
    ultimately have "\<bar>a\<bar> * (1 - f) + \<bar>b\<bar> * f \<le> max \<bar>a\<bar> \<bar>b\<bar> * (1 - f) + max \<bar>a\<bar> \<bar>b\<bar> * f"
      by linarith
    also have "\<dots> = max \<bar>a\<bar> \<bar>b\<bar>" by (simp add: algebra_simps)
    finally show ?thesis .
  qed
  have "\<bar>a * (1 - f) + b * f\<bar> \<le> \<bar>a * (1 - f)\<bar> + \<bar>b * f\<bar>" by (rule abs_triangle_ineq)
  with a1 b1 le assms show "\<bar>a * (1 - f) + b * f\<bar> < B" by (simp add: max_def split: if_splits)
qed

text \<open>The rank, the two indices and the weight of lines 89 to 92, in exact arithmetic.\<close>

lemma percentile_value_exact:
  assumes ne: "s \<noteq> []"
    and rng: "\<forall>x\<in>set s. \<bar>x\<bar> < overflow_bound"
    and len: "real (length s) < overflow_bound"
    and p: "0 \<le> p" "p \<le> 100"
  defines "x \<equiv> p / 100 * real (length s - 1)"
  defines "lo \<equiv> nat \<lfloor>x\<rfloor>"
  defines "hi \<equiv> min (lo + 1) (length s - 1)"
  defines "f \<equiv> x - real lo"
  shows "percentile_value (map Fin s) (int (length s)) (Fin p) =
           Inr (Fin (s ! lo * (1 - f) + s ! hi * f))"
    and "0 \<le> x" and "x \<le> real (length s - 1)" and "lo < length s" and "hi < length s"
    and "0 \<le> f" and "f < 1"
proof -
  let ?n = "length s"
  have pos: "0 < ?n" using ne by simp
  have n1: "real_of_int (int ?n - 1) = real (?n - 1)"
  proof -
    from pos obtain m where "?n = Suc m" by (cases ?n) auto
    then show ?thesis by simp
  qed
  have q: "0 \<le> p / 100" "p / 100 \<le> 1" using p by simp_all
  show x0: "0 \<le> x" using q by (simp add: x_def)
  have "p / 100 * real (?n - 1) \<le> 1 * real (?n - 1)"
    using q by (intro mult_right_mono) simp_all
  then show xn: "x \<le> real (?n - 1)" by (simp add: x_def)
  have fx: "0 \<le> \<lfloor>x\<rfloor>" using x0 by simp
  have lo_int: "int lo = \<lfloor>x\<rfloor>" using fx by (simp add: lo_def)
  have "\<lfloor>x\<rfloor> \<le> int (?n - 1)" using xn by (simp add: floor_le_iff) 
  then have lo_le: "lo \<le> ?n - 1" using lo_int by linarith
  then show lo_lt: "lo < ?n" using pos by linarith
  have "hi \<le> ?n - 1" unfolding hi_def by (rule min.cobounded2)
  then show hi_lt: "hi < ?n" using pos by linarith
  have flo: "real lo = of_int \<lfloor>x\<rfloor>" using lo_int by (metis of_int_of_nat_eq)
  show f0: "0 \<le> f" unfolding f_def flo by simp
  show f1: "f < 1" unfolding f_def flo by linarith
  have ob: "1 < overflow_bound" using overflow_bound_large by simp
  have d: "fl_div (Fin p) 100 = Fin (p / 100)"
    using q ob by (simp add: fl_round_in_range)
  have xb: "\<bar>x\<bar> < overflow_bound" using x0 xn len pos by simp
  have idx: "fl_mul (Fin (p / 100)) (Fin (real_of_int (int ?n - 1))) = Fin x"
  proof -
    have "fl_mul (Fin (p / 100)) (Fin (real_of_int (int ?n - 1))) = fl_round x"
      unfolding n1 x_def by (simp only: fl_mul.simps)
    then show ?thesis using xb by (simp only: fl_round_in_range)
  qed
  have ti: "float_to_int (Fin x) = Inr (int lo)" using x0 lo_int by simp
  have hi_int: "min (int lo + 1) (int ?n - 1) = int hi"
    unfolding hi_def using pos by linarith
  have fr: "fl_sub (Fin x) (Fin (real_of_int (int lo))) = Fin f"
    using f0 f1 ob by (simp add: fl_sub_def f_def fl_round_in_range)
  have ia: "py_index (map Fin s) (int lo) = Inr (Fin (s ! lo))"
    using lo_lt by (simp add: py_index_def)
  have ib: "py_index (map Fin s) (int hi) = Inr (Fin (s ! hi))"
    using hi_lt by (simp add: py_index_def)
  have w: "fl_sub (Fin 1) (Fin f) = Fin (1 - f)"
    using f0 f1 ob by (simp add: fl_sub_def fl_round_in_range)
  have ra: "\<bar>s ! lo\<bar> < overflow_bound" using rng lo_lt by simp
  have rb: "\<bar>s ! hi\<bar> < overflow_bound" using rng hi_lt by simp
  have fle: "f \<le> 1" using f1 by simp
  note cb = convex_abs [OF ra rb f0 fle]
  have val: "fl_add (fl_mul (Fin (s ! lo)) (Fin (1 - f))) (fl_mul (Fin (s ! hi)) (Fin f)) =
      Fin (s ! lo * (1 - f) + s ! hi * f)"
    using cb by (simp add: fl_round_in_range)
  show "percentile_value (map Fin s) (int ?n) (Fin p) = Inr (Fin (s ! lo * (1 - f) + s ! hi * f))"
    unfolding percentile_value_def Let_def d idx
    by (simp only: ti sum.case hi_int fr ia ib w val)
qed


text \<open>
  With finite floats read as exact reals, the interpolated percentile is monotone: for a
  non-empty sample whose values and length lie inside the float range and
  \<open>0 \<le> p1 \<le> p2 \<le> 100\<close>, lines 89 to 93 return finite values \<open>v1\<close> at \<open>p1\<close>
  and \<open>v2\<close> at \<open>p2\<close> with \<open>v1 \<le> v2\<close>. Binary64 rounds each of the two products and
  their sum, so this order is a statement about the arithmetic modelled here, not about
  the last bit of the floats the program prints.
\<close>

theorem percentile_monotone_exact:
  assumes ne: "xs \<noteq> []"
    and rng: "\<forall>x\<in>set xs. \<bar>x\<bar> < overflow_bound"
    and len: "real (length xs) < overflow_bound"
    and p: "0 \<le> p1" "p1 \<le> p2" "p2 \<le> 100"
  shows "\<exists>v1 v2.
           percentile_value (sorted_py (map Fin xs)) (int (length xs)) (Fin p1) = Inr (Fin v1) \<and>
           percentile_value (sorted_py (map Fin xs)) (int (length xs)) (Fin p2) = Inr (Fin v2) \<and>
           v1 \<le> v2"
proof -
  let ?s = "sort xs"
  let ?n = "length ?s"
  have sne: "?s \<noteq> []" using ne by (metis length_sort length_0_conv)
  have srng: "\<forall>x\<in>set ?s. \<bar>x\<bar> < overflow_bound" using rng by simp
  have slen: "real ?n < overflow_bound" using len by simp
  have srt: "sorted ?s" by simp
  define x1 where "x1 = p1 / 100 * real (?n - 1)"
  define x2 where "x2 = p2 / 100 * real (?n - 1)"
  define lo1 where "lo1 = nat \<lfloor>x1\<rfloor>"
  define lo2 where "lo2 = nat \<lfloor>x2\<rfloor>"
  define hi1 where "hi1 = min (lo1 + 1) (?n - 1)"
  define hi2 where "hi2 = min (lo2 + 1) (?n - 1)"
  define f1 where "f1 = x1 - real lo1"
  define f2 where "f2 = x2 - real lo2"
  have p1': "0 \<le> p1" "p1 \<le> 100" and p2': "0 \<le> p2" "p2 \<le> 100" using p by simp_all
  have v1: "percentile_value (map Fin ?s) (int ?n) (Fin p1) =
              Inr (Fin (?s ! lo1 * (1 - f1) + ?s ! hi1 * f1))"
    and lo1_lt: "lo1 < ?n" and hi1_lt: "hi1 < ?n" and f1_ge: "0 \<le> f1" and f1_lt: "f1 < 1"
    unfolding x1_def lo1_def hi1_def f1_def
    by (rule percentile_value_exact [OF sne srng slen p1'])+
  have v2: "percentile_value (map Fin ?s) (int ?n) (Fin p2) =
              Inr (Fin (?s ! lo2 * (1 - f2) + ?s ! hi2 * f2))"
    and lo2_lt: "lo2 < ?n" and hi2_lt: "hi2 < ?n" and f2_ge: "0 \<le> f2" and f2_lt: "f2 < 1"
    unfolding x2_def lo2_def hi2_def f2_def
    by (rule percentile_value_exact [OF sne srng slen p2'])+
  let ?v1 = "?s ! lo1 * (1 - f1) + ?s ! hi1 * f1"
  let ?v2 = "?s ! lo2 * (1 - f2) + ?s ! hi2 * f2"
  have x12: "x1 \<le> x2" unfolding x1_def x2_def using p by (simp add: mult_right_mono)
  then have lo12: "lo1 \<le> lo2" unfolding lo1_def lo2_def by (simp add: floor_mono nat_mono)
  have lh1: "lo1 \<le> hi1" unfolding hi1_def using lo1_lt by simp
  have lh2: "lo2 \<le> hi2" unfolding hi2_def using lo2_lt by simp
  have ab1: "?s ! lo1 \<le> ?s ! hi1" by (rule sorted_nth_mono [OF srt lh1 hi1_lt])
  have ab2: "?s ! lo2 \<le> ?s ! hi2" by (rule sorted_nth_mono [OF srt lh2 hi2_lt])
  have f1le: "f1 \<le> 1" and f2le: "f2 \<le> 1" using f1_lt f2_lt by simp_all
  have "?v1 \<le> ?v2"
  proof (cases "lo1 = lo2")
    case True
    then have h: "hi1 = hi2" by (simp add: hi1_def hi2_def)
    have ff: "f1 \<le> f2" unfolding f1_def f2_def using True x12 by simp
    have "?v2 - ?v1 = (f2 - f1) * (?s ! hi1 - ?s ! lo1)"
      using True h by (simp add: algebra_simps)
    moreover have "0 \<le> (f2 - f1) * (?s ! hi1 - ?s ! lo1)" using ff ab1 by simp
    ultimately show ?thesis by linarith
  next
    case False
    with lo12 have "lo1 < lo2" by simp
    then have "hi1 \<le> lo2" unfolding hi1_def by simp
    then have mid: "?s ! hi1 \<le> ?s ! lo2" by (rule sorted_nth_mono [OF srt _ lo2_lt])
    have "?v1 \<le> ?s ! hi1" using convex_bounds(2) [OF ab1 f1_ge f1le] .
    moreover have "?s ! lo2 \<le> ?v2" using convex_bounds(1) [OF ab2 f2_ge f2le] .
    ultimately show ?thesis using mid by linarith
  qed
  with v1 v2 show ?thesis by (auto simp: sorted_py_Fin)
qed

theorem percentile_monotone_exact_witness:
  "[1, 3 :: real] \<noteq> [] \<and> \<bar>1 :: real\<bar> < overflow_bound \<and> \<bar>3 :: real\<bar> < overflow_bound \<and>
   real (length [1, 3 :: real]) < overflow_bound \<and> (0 :: real) \<le> 25 \<and> (25 :: real) \<le> 75 \<and>
   (75 :: real) \<le> 100 \<and>
   (\<exists>v1 v2.
      percentile_value (sorted_py (map Fin [1, 3])) (int (length [1, 3 :: real])) (Fin 25) = Inr (Fin v1) \<and>
      percentile_value (sorted_py (map Fin [1, 3])) (int (length [1, 3 :: real])) (Fin 75) = Inr (Fin v2) \<and>
      v1 \<le> v2)"
proof -
  have ob: "3 < overflow_bound" using overflow_bound_large by simp
  have h1: "[1, 3 :: real] \<noteq> []" by simp
  have h2: "\<forall>x\<in>set [1, 3 :: real]. \<bar>x\<bar> < overflow_bound" using ob by simp
  have h3: "real (length [1, 3 :: real]) < overflow_bound" using ob by simp
  have h4: "(0 :: real) \<le> 25" "(25 :: real) \<le> 75" "(75 :: real) \<le> 100" by simp_all
  from percentile_monotone_exact [OF h1 h2 h3 h4] h2 h3 show ?thesis by simp
qed

text \<open>
  In the same arithmetic the percentile at \<open>p = 0\<close> is the least value of the sample and
  the percentile at \<open>p = 100\<close> the greatest.
\<close>

theorem percentile_extremes_exact:
  assumes ne: "xs \<noteq> []"
    and rng: "\<forall>x\<in>set xs. \<bar>x\<bar> < overflow_bound"
    and len: "real (length xs) < overflow_bound"
  shows "percentile_value (sorted_py (map Fin xs)) (int (length xs)) (Fin 0) = Inr (Fin (sort xs ! 0))
         \<and> percentile_value (sorted_py (map Fin xs)) (int (length xs)) (Fin 100) =
           Inr (Fin (sort xs ! (length xs - 1)))"
proof -
  let ?s = "sort xs"
  have sne: "?s \<noteq> []" using ne by (metis length_sort length_0_conv)
  have srng: "\<forall>x\<in>set ?s. \<bar>x\<bar> < overflow_bound" using rng by simp
  have slen: "real (length ?s) < overflow_bound" using len by simp
  from percentile_value_exact(1) [OF sne srng slen, of 0]
  have lowest: "percentile_value (sorted_py (map Fin xs)) (int (length xs)) (Fin 0) =
      Inr (Fin (sort xs ! 0))"
    by (simp add: sorted_py_Fin)
  from percentile_value_exact(1) [OF sne srng slen, of 100]
  have "percentile_value (sorted_py (map Fin xs)) (int (length xs)) (Fin 100) =
           Inr (Fin (sort xs ! (length xs - 1)))"
    by (simp add: sorted_py_Fin)
  with lowest show ?thesis by simp
qed

theorem percentile_extremes_exact_witness:
  "[1, 3 :: real] \<noteq> [] \<and> \<bar>1 :: real\<bar> < overflow_bound \<and> \<bar>3 :: real\<bar> < overflow_bound \<and>
   real (length [1, 3 :: real]) < overflow_bound \<and>
   percentile_value (sorted_py (map Fin [1, 3])) (int (length [1, 3 :: real])) (Fin 0) = Inr (Fin 1) \<and>
   percentile_value (sorted_py (map Fin [1, 3])) (int (length [1, 3 :: real])) (Fin 100) = Inr (Fin 3)"
proof -
  have ob: "3 < overflow_bound" using overflow_bound_large by simp
  have h1: "[1, 3 :: real] \<noteq> []" by simp
  have h2: "\<forall>x\<in>set [1, 3 :: real]. \<bar>x\<bar> < overflow_bound" using ob by simp
  have h3: "real (length [1, 3 :: real]) < overflow_bound" using ob by simp
  from percentile_extremes_exact [OF h1 h2 h3] h2 h3 show ?thesis by simp
qed

end
